theory Spec2Isabelle
  imports Main "HOL-Library.Word" "HOL-Library.List_Lexorder" "HOL-Library.Char_ord"
    "HOL-Library.Multiset"
begin

unbundle bit_operations_syntax

section \<open>Cell values and their textual form\<close>

text \<open>
  The storage layer hands cells to the program as Go values of type \<^verbatim>\<open>any\<close>: \<^verbatim>\<open>nil\<close>,
  \<^verbatim>\<open>int64\<close>, \<^verbatim>\<open>float64\<close>, \<^verbatim>\<open>string\<close>, \<^verbatim>\<open>[]byte\<close> and \<^verbatim>\<open>time.Time\<close>. Go strings are byte
  sequences, and so is \<^typ>\<open>string\<close> here.

  How a \<^verbatim>\<open>float64\<close> and a \<^verbatim>\<open>time.Time\<close> print belongs to Go's library (\<^verbatim>\<open>strconv\<close>'s shortest
  decimal form, the \<^verbatim>\<open>String\<close> method of \<^verbatim>\<open>time.Time\<close>) and is not written out: a \<^verbatim>\<open>float64\<close> is
  kept as its IEEE 754 bits together with the text \<^verbatim>\<open>fmt.Sprint\<close> prints for it, a
  \<^verbatim>\<open>time.Time\<close> as its instant (Unix seconds and nanoseconds), the name of its location and
  the text \<^verbatim>\<open>fmt.Sprint\<close> prints for it.
\<close>

type_synonym byte = "8 word"

type_synonym Location = string

datatype float64 = Float64 (float_bits: "64 word") (float_text: string)

datatype gotime = Time (unix_sec: int) (unix_nsec: int) (location: Location) (time_text: string)

datatype val = Null | Integer int | Real float64 | Text string | Blob "byte list" | Timestamp gotime

fun digits :: "nat \<Rightarrow> string" where
  "digits n = (if n < 10 then [''0123456789'' ! n]
               else digits (n div 10) @ [''0123456789'' ! (n mod 10)])"

declare digits.simps [simp del]

definition show_int :: "int \<Rightarrow> string" where
  "show_int i = (if i < 0 then CHR ''-'' # digits (nat (- i)) else digits (nat i))"

text \<open>\<^verbatim>\<open>strings.Join(parts, sep)\<close>.\<close>

fun Join :: "string list \<Rightarrow> string \<Rightarrow> string" where
  "Join [] sep = []"
| "Join [p] sep = p"
| "Join (p # q # ps) sep = p @ sep @ Join (q # ps) sep"

text \<open>\<^verbatim>\<open>fmt.Sprint(v)\<close> on a cell value.\<close>

fun Sprint :: "val \<Rightarrow> string" where
  "Sprint Null = ''<nil>''"
| "Sprint (Integer i) = show_int i"
| "Sprint (Real f) = float_text f"
| "Sprint (Text s) = s"
| "Sprint (Blob bs) = ''['' @ Join (map (\<lambda>b. digits (unat b)) bs) '' '' @ '']''"
| "Sprint (Timestamp t) = time_text t"

definition byte_of_char :: "char \<Rightarrow> byte" where
  "byte_of_char c = of_nat (of_char c)"

definition bytes_of :: "string \<Rightarrow> byte list" where
  "bytes_of s = map byte_of_char s"

text \<open>
  \<^verbatim>\<open>strings.ToLower\<close> on an ASCII string: the letters A to Z move to a to z, every other
  byte stays. This is what Go does on every string whose bytes are all below 128. On a
  string with other bytes Go decodes UTF-8 and lowers each rune by the Unicode tables,
  which are not written out here: there the function below leaves those bytes as they are
  (so it differs from Go on, for instance, the Kelvin sign U+212A, which Go lowers to the
  letter k). The names of the built-in transformers, the word lists and the base32
  alphabet are ASCII.
\<close>

definition lower_char :: "char \<Rightarrow> char" where
  "lower_char c =
     (if CHR ''A'' \<le> c \<and> c \<le> CHR ''Z'' then char_of (of_char c + (32::nat)) else c)"

definition ToLower :: "string \<Rightarrow> string" where
  "ToLower s = map lower_char s"

section \<open>The hash functions of the standard library\<close>

text \<open>
  \<^verbatim>\<open>crypto/sha256\<close>, \<^verbatim>\<open>crypto/hmac\<close>, \<^verbatim>\<open>encoding/hex\<close> and \<^verbatim>\<open>encoding/base32\<close> are written
  out from their standards (FIPS 180-4, RFC 2104, RFC 4648), so that the transformers
  can be run on concrete inputs.
\<close>

fun chunk :: "nat \<Rightarrow> 'a list \<Rightarrow> 'a list list" where
  "chunk n xs = (if n = 0 \<or> xs = [] then [] else take n xs # chunk n (drop n xs))"

declare chunk.simps [simp del]

text \<open>
  The round constants of SHA-256 (the first 32 bits of the fractional parts of the cube
  roots of the first 64 primes), in decimal.
\<close>

definition K256 :: "32 word list" where
  "K256 = [
   1116352408, 1899447441, 3049323471, 3921009573, 961987163, 1508970993,
   2453635748, 2870763221, 3624381080, 310598401, 607225278, 1426881987,
   1925078388, 2162078206, 2614888103, 3248222580, 3835390401, 4022224774,
   264347078, 604807628, 770255983, 1249150122, 1555081692, 1996064986,
   2554220882, 2821834349, 2952996808, 3210313671, 3336571891, 3584528711,
   113926993, 338241895, 666307205, 773529912, 1294757372, 1396182291,
   1695183700, 1986661051, 2177026350, 2456956037, 2730485921, 2820302411,
   3259730800, 3345764771, 3516065817, 3600352804, 4094571909, 275423344,
   430227734, 506948616, 659060556, 883997877, 958139571, 1322822218,
   1537002063, 1747873779, 1955562222, 2024104815, 2227730452, 2361852424,
   2428436474, 2756734187, 3204031479, 3329325298]"

definition be32 :: "byte list \<Rightarrow> 32 word" where
  "be32 bs = foldl (\<lambda>a b. push_bit 8 a OR ucast b) 0 bs"

definition bytes_of_word32 :: "32 word \<Rightarrow> byte list" where
  "bytes_of_word32 w =
     [ucast (drop_bit 24 w), ucast (drop_bit 16 w), ucast (drop_bit 8 w), ucast w]"

definition bytes_of_word64 :: "64 word \<Rightarrow> byte list" where
  "bytes_of_word64 w = map (\<lambda>i. ucast (drop_bit (8 * i) w)) [7, 6, 5, 4, 3, 2, 1, 0]"

definition sha_pad :: "byte list \<Rightarrow> byte list" where
  "sha_pad m = m @ [0x80] @ replicate ((119 - length m mod 64) mod 64) 0
                 @ bytes_of_word64 (of_nat (8 * length m))"

fun sha_extend :: "nat \<Rightarrow> 32 word list \<Rightarrow> 32 word list" where
  "sha_extend 0 w = w"
| "sha_extend (Suc k) w =
     (let n = length w;
          w2 = w ! (n - 2); w7 = w ! (n - 7); w15 = w ! (n - 15); w16 = w ! (n - 16);
          s0 = word_rotr 7 w15 XOR word_rotr 18 w15 XOR drop_bit 3 w15;
          s1 = word_rotr 17 w2 XOR word_rotr 19 w2 XOR drop_bit 10 w2
      in sha_extend k (w @ [s1 + w7 + s0 + w16]))"

type_synonym sha_state =
  "32 word \<times> 32 word \<times> 32 word \<times> 32 word \<times> 32 word \<times> 32 word \<times> 32 word \<times> 32 word"

fun sha_round :: "sha_state \<Rightarrow> 32 word \<times> 32 word \<Rightarrow> sha_state" where
  "sha_round (a, b, c, d, e, f, g, h) (k, w) =
     (let S1 = word_rotr 6 e XOR word_rotr 11 e XOR word_rotr 25 e;
          ch = (e AND f) XOR (NOT e AND g);
          t1 = h + S1 + ch + k + w;
          S0 = word_rotr 2 a XOR word_rotr 13 a XOR word_rotr 22 a;
          maj = (a AND b) XOR (a AND c) XOR (b AND c);
          t2 = S0 + maj
      in (t1 + t2, a, b, c, d + t1, e, f, g))"

fun sha_add :: "sha_state \<Rightarrow> sha_state \<Rightarrow> sha_state" where
  "sha_add (a, b, c, d, e, f, g, h) (a', b', c', d', e', f', g', h') =
     (a + a', b + b', c + c', d + d', e + e', f + f', g + g', h + h')"

definition sha_block :: "sha_state \<Rightarrow> byte list \<Rightarrow> sha_state" where
  "sha_block st blk =
     sha_add st (foldl sha_round st (zip K256 (sha_extend 48 (map be32 (chunk 4 blk)))))"

definition sha_init :: sha_state where
  "sha_init = (1779033703, 3144134277, 1013904242, 2773480762,
               1359893119, 2600822924, 528734635, 1541459225)"

fun sha_out :: "sha_state \<Rightarrow> byte list" where
  "sha_out (a, b, c, d, e, f, g, h) = concat (map bytes_of_word32 [a, b, c, d, e, f, g, h])"

definition sha256 :: "byte list \<Rightarrow> byte list" where
  "sha256 m = sha_out (foldl sha_block sha_init (chunk 64 (sha_pad m)))"

definition hmac_sha256 :: "byte list \<Rightarrow> byte list \<Rightarrow> byte list" where
  "hmac_sha256 key msg =
     (let k0 = (if length key > 64 then sha256 key else key);
          k = k0 @ replicate (64 - length k0) 0
      in sha256 (map (\<lambda>b. b XOR 0x5c) k @ sha256 (map (\<lambda>b. b XOR 0x36) k @ msg)))"

definition hex_digit :: "nat \<Rightarrow> char" where
  "hex_digit n = ''0123456789abcdef'' ! (n mod 16)"

definition hex_encode :: "byte list \<Rightarrow> string" where
  "hex_encode bs = concat (map (\<lambda>b. [hex_digit (unat b div 16), hex_digit (unat b mod 16)]) bs)"

definition bits_of_byte :: "byte \<Rightarrow> bool list" where
  "bits_of_byte b = map (bit b) [7, 6, 5, 4, 3, 2, 1, 0]"

definition nat_of_bits :: "bool list \<Rightarrow> nat" where
  "nat_of_bits bs = foldl (\<lambda>a b. 2 * a + (if b then 1 else 0)) 0 bs"

definition base32_char :: "nat \<Rightarrow> char" where
  "base32_char n = ''ABCDEFGHIJKLMNOPQRSTUVWXYZ234567'' ! (n mod 32)"

text \<open>\<^verbatim>\<open>base32.StdEncoding.WithPadding(base32.NoPadding).EncodeToString\<close>.\<close>

definition base32_encode :: "byte list \<Rightarrow> string" where
  "base32_encode bs =
     map (\<lambda>g. base32_char (nat_of_bits (g @ replicate (5 - length g) False)))
       (chunk 5 (concat (map bits_of_byte bs)))"

lemma sha256_abc:
  "hex_encode (sha256 (bytes_of ''abc'')) =
     ''ba7816bf8f01cfea414140de5dae2223b00361a396177a9cb410ff61f20015ad''"
  by code_simp

lemma base32_foobar: "base32_encode (bytes_of ''foobar'') = ''MZXW6YTBOI''"
  by code_simp

lemma length_sha_out: "length (sha_out st) = 32"
  by (cases st rule: sha_out.cases) (simp add: bytes_of_word32_def)

lemma length_sha256 [simp]: "length (sha256 m) = 32"
  by (simp add: sha256_def length_sha_out)

lemma length_hex_encode [simp]: "length (hex_encode bs) = 2 * length bs"
  by (induction bs) (simp_all add: hex_encode_def)

lemma ceil_step: "0 < n \<Longrightarrow> 0 < (k::nat) \<Longrightarrow> (k + n - 1) div n = Suc ((k - n + n - 1) div n)"
proof -
  assume n: "0 < n" and k: "0 < k"
  have "k + n - 1 = (k - 1) + n" using k by arith
  then have a: "(k + n - 1) div n = Suc ((k - 1) div n)"
    using n by (metis add.commute div_add_self1 less_numeral_extra(3) plus_1_eq_Suc add.commute)
  have b: "(k - n + n - 1) div n = (k - 1) div n"
  proof (cases "k \<le> n")
    case True
    then have "k - n + n - 1 = n - 1" by arith
    moreover have "(n - 1) div n = 0" using n by simp
    moreover have "(k - 1) div n = 0" using True k by simp
    ultimately show ?thesis by presburger
  next
    case False
    then have "k - n + n - 1 = k - 1" by arith
    then show ?thesis by presburger
  qed
  from a b show ?thesis by presburger
qed

lemma length_chunk: "0 < n \<Longrightarrow> length (chunk n xs) = (length xs + n - 1) div n"
proof (induction n xs rule: chunk.induct)
  case (1 n xs)
  show ?case
  proof (cases "xs = []")
    case True
    with "1.prems" show ?thesis by (simp add: chunk.simps)
  next
    case False
    then have len: "0 < length xs" by simp
    have ih: "length (chunk n (drop n xs)) = (length xs - n + n - 1) div n"
      using "1.IH" "1.prems" False by simp
    have "length (chunk n xs) = Suc (length (chunk n (drop n xs)))"
      using "1.prems" False by (subst chunk.simps) simp
    with ih ceil_step [OF "1.prems" len] show ?thesis by presburger
  qed
qed
lemma length_base32_encode: "length (base32_encode bs) = (8 * length bs + 4) div 5"
proof -
  have "length (concat (map bits_of_byte bs)) = 8 * length bs"
    by (induction bs) (simp_all add: bits_of_byte_def)
  then show ?thesis
    by (simp add: base32_encode_def length_chunk)
qed

section \<open>Transformers\<close>

datatype error =
    UnknownTransformer string
  | InvalidRegex string
  | PluginNotInitialized string
  | Panic string
  | LookupRequiresKeyValue
  | RootTableNotFound string
  | NoPrimaryKey string
  | NoColumnsRequested
  | MissingColumn string
  | QueryFailed string
  | PluginError string
  | Wrapped string error

record RowContext =
  Table :: string
  PK :: "val list"
  Seed :: "64 word"
  Salt :: string

record TransformConfig =
  Type :: string
  Params :: "string \<rightharpoonup> val"
  Value :: val
  Pattern :: string
  Replace :: string
  Locale :: string
  MaxLen :: int
  cfg_Map :: "string \<rightharpoonup> string"
  LookupTable :: string
  LookupKey :: string
  LookupValue :: string

subsection \<open>The library and the process\<close>

text \<open>
  The functions of Go's standard library that the transformers call and that are not
  written out here: the generator of \<^verbatim>\<open>math/rand\<close> (the state \<^verbatim>\<open>rand.NewSource(seed)\<close> starts
  from, and \<^verbatim>\<open>Intn\<close> on a state, which gives a number and the next state), \<^verbatim>\<open>regexp\<close>
  (whether a pattern compiles, and \<^verbatim>\<open>ReplaceAllString\<close> of the compiled pattern), \<^verbatim>\<open>time\<close>
  and \<^verbatim>\<open>path.Match\<close>. \<^verbatim>\<open>time.Parse\<close> and \<^verbatim>\<open>time.Unix\<close> read the package variable
  \<^verbatim>\<open>time.Local\<close> (a parsed offset that is the local zone's offset at that instant makes
  the result a local time), so they take the local zone as an argument.
\<close>

record 'g stdlib =
  rand_New :: "64 word \<Rightarrow> 'g"
  rand_Intn :: "'g \<Rightarrow> int \<Rightarrow> int \<times> 'g"
  regexp_Compile_ok :: "string \<Rightarrow> bool"
  ReplaceAllString :: "string \<Rightarrow> string \<Rightarrow> string \<Rightarrow> string"
  time_Parse :: "Location \<Rightarrow> string \<Rightarrow> string \<Rightarrow> gotime option"
  time_Unix :: "Location \<Rightarrow> int \<Rightarrow> int \<Rightarrow> gotime"
  time_Add :: "gotime \<Rightarrow> int \<Rightarrow> gotime"
  time_Format :: "gotime \<Rightarrow> string \<Rightarrow> string"
  path_Match :: "string \<Rightarrow> string \<Rightarrow> bool"

text \<open>
  What a call can read and change in the running process: the generators allocated so
  far (\<^verbatim>\<open>rand.New\<close> allocates a generator, \<^verbatim>\<open>Intn\<close> advances the one it is called on),
  addressed by their position, and \<^verbatim>\<open>time.Local\<close>. A call takes the process and returns
  its result, an error (a returned \<^verbatim>\<open>error\<close> or a panic) or a value, with the process it
  leaves behind.
\<close>

record 'g process =
  rngs :: "'g list"
  time_Local :: Location

type_synonym ('a, 'g) go = "'g process \<Rightarrow> (error + 'a) \<times> 'g process"

definition lift_go :: "error + 'a \<Rightarrow> ('a, 'g) go" where
  "lift_go r w = (r, w)"

definition return_go :: "'a \<Rightarrow> ('a, 'g) go" where
  "return_go x = lift_go (Inr x)"

definition panic :: "string \<Rightarrow> ('a, 'g) go" where
  "panic msg = lift_go (Inl (Panic msg))"

definition bind_go :: "('a, 'g) go \<Rightarrow> ('a \<Rightarrow> ('b, 'g) go) \<Rightarrow> ('b, 'g) go" where
  "bind_go m f w = (case m w of (Inl e, w') \<Rightarrow> (Inl e, w') | (Inr x, w') \<Rightarrow> f x w')"

text \<open>Go's \<^verbatim>\<open>int\<close> and \<^verbatim>\<open>int64\<close> (64 bits on the platforms that load plugins) wrap around.\<close>

definition wrap64 :: "int \<Rightarrow> int" where
  "wrap64 i = signed_take_bit 63 i"

definition add64 :: "int \<Rightarrow> int \<Rightarrow> int" where
  "add64 a b = wrap64 (a + b)"

definition sub64 :: "int \<Rightarrow> int \<Rightarrow> int" where
  "sub64 a b = wrap64 (a - b)"

definition mul64 :: "int \<Rightarrow> int \<Rightarrow> int" where
  "mul64 a b = wrap64 (a * b)"

text \<open>\<^verbatim>\<open>xs[i]\<close>, which panics out of range.\<close>

definition index :: "'a list \<Rightarrow> int \<Rightarrow> ('a, 'g) go" where
  "index xs i =
     (if 0 \<le> i \<and> i < int (length xs) then return_go (xs ! nat i)
      else panic ''index out of range'')"

text \<open>
  A transformer is one of the structs that implement the \<^verbatim>\<open>Transformer\<close> interface. A
  plugin's callback is Go code of the plugin: it is given the value and the context the
  program builds from the row and the configuration, and like every call it runs in the
  process. The callback of a \<^verbatim>\<open>PluginTransformer\<close> may be \<^verbatim>\<open>nil\<close>.
\<close>

type_synonym 'g PluginFunc = "val \<Rightarrow> RowContext \<Rightarrow> TransformConfig option \<Rightarrow> (val, 'g) go"

datatype 'g transformer =
    HashSha256 string int
  | HmacSha256 "byte list" int
  | StableTokenize int
  | RegexReplace string string
  | SetNull
  | SetValue val
  | MapReplace "string \<rightharpoonup> string"
  | FakerName
  | FakerEmail
  | FakerAddress
  | FakerPhone
  | DateShift int
  | PluginTransformer string "'g PluginFunc option" "TransformConfig option"

fun Name_of :: "'g transformer \<Rightarrow> string" where
  "Name_of (HashSha256 _ _) = ''HashSha256''"
| "Name_of (HmacSha256 _ _) = ''HmacSha256''"
| "Name_of (StableTokenize _) = ''StableTokenize''"
| "Name_of (RegexReplace _ _) = ''RegexReplace''"
| "Name_of SetNull = ''SetNull''"
| "Name_of (SetValue _) = ''SetValue''"
| "Name_of (MapReplace _) = ''MapReplace''"
| "Name_of FakerName = ''FakerName''"
| "Name_of FakerEmail = ''FakerEmail''"
| "Name_of FakerAddress = ''FakerAddress''"
| "Name_of FakerPhone = ''FakerPhone''"
| "Name_of (DateShift _) = ''DateShift''"
| "Name_of (PluginTransformer name _ _) = name"

text \<open>\<^verbatim>\<open>if t.maxLen > 0 && t.maxLen < len(out) { out = out[:t.maxLen] }\<close>\<close>

definition truncate_to :: "int \<Rightarrow> string \<Rightarrow> string" where
  "truncate_to maxLen out =
     (if maxLen > 0 \<and> maxLen < int (length out) then take (nat maxLen) out else out)"

definition HashSha256_Transform :: "string \<Rightarrow> int \<Rightarrow> val \<Rightarrow> RowContext \<Rightarrow> error + val" where
  "HashSha256_Transform salt maxLen v row =
     (if v = Null then Inr Null
      else Inr (Text (truncate_to maxLen (hex_encode (sha256 (bytes_of (salt @ Sprint v)))))))"

definition HmacSha256_Transform :: "byte list \<Rightarrow> int \<Rightarrow> val \<Rightarrow> RowContext \<Rightarrow> error + val" where
  "HmacSha256_Transform key maxLen v row =
     (if v = Null then Inr Null
      else Inr (Text (truncate_to maxLen (hex_encode (hmac_sha256 key (bytes_of (Sprint v)))))))"

definition StableTokenize_Transform :: "int \<Rightarrow> val \<Rightarrow> RowContext \<Rightarrow> error + val" where
  "StableTokenize_Transform maxLen v row =
     (if v = Null then Inr Null
      else
        let out = ToLower (base32_encode (sha256 (bytes_of (Salt row @ Sprint v))))
        in Inr (Text
          (if maxLen > 0 \<and> maxLen < int (length out) then take (nat maxLen) out
           else if maxLen = 0 \<and> length out > 16 then take 16 out
           else out)))"

definition MapReplace_Transform :: "(string \<rightharpoonup> string) \<Rightarrow> val \<Rightarrow> RowContext \<Rightarrow> error + val" where
  "MapReplace_Transform m v row =
     (if v = Null then Inr Null
      else let s = Sprint v in (case m s of Some r \<Rightarrow> Inr (Text r) | None \<Rightarrow> Inr (Text s)))"

definition RowSeed :: "RowContext \<Rightarrow> 64 word" where
  "RowSeed row =
     (let h = sha256 (bytes_of (Salt row) @ bytes_of (Table row)
                        @ concat (map (\<lambda>v. bytes_of (Sprint v)) (PK row)));
          seed = foldl (\<lambda>seed b. push_bit 8 seed OR ucast b) 0 (take 8 h);
          seed = (if seed = 0 then Seed row else seed)
      in seed XOR Seed row)"

text \<open>
  \<^verbatim>\<open>rand.New(rand.NewSource(seed))\<close> allocates a generator and returns the pointer to it;
  \<^verbatim>\<open>rng.Intn(n)\<close> panics when \<open>n \<le> 0\<close> and otherwise advances the generator behind the
  pointer.
\<close>

definition DeterministicRand :: "'g stdlib \<Rightarrow> RowContext \<Rightarrow> (nat, 'g) go" where
  "DeterministicRand lib row w =
     (Inr (length (rngs w)), w\<lparr>rngs := rngs w @ [rand_New lib (RowSeed row)]\<rparr>)"

definition Intn :: "'g stdlib \<Rightarrow> nat \<Rightarrow> int \<Rightarrow> (int, 'g) go" where
  "Intn lib rng n w =
     (if n \<le> 0 then panic ''invalid argument to Intn'' w
      else if length (rngs w) \<le> rng then panic ''invalid memory address'' w
      else case rand_Intn lib (rngs w ! rng) n of
             (r, g) \<Rightarrow> (Inr r, w\<lparr>rngs := (rngs w)[rng := g]\<rparr>))"

definition firstNames :: "string list" where
  "firstNames = [''Alex'', ''Jamie'', ''Taylor'', ''Jordan'', ''Morgan'', ''Casey'', ''Riley'',
                 ''Avery'', ''Parker'', ''Reese'']"

definition lastNames :: "string list" where
  "lastNames = [''Smith'', ''Johnson'', ''Lee'', ''Brown'', ''Davis'', ''Miller'', ''Wilson'',
                ''Moore'', ''Clark'', ''Hall'']"

definition emailDomains :: "string list" where
  "emailDomains = [''example.com'', ''mail.local'', ''demo.test'', ''sample.org'']"

definition streetNames :: "string list" where
  "streetNames = [''Oak'', ''Maple'', ''Cedar'', ''Pine'', ''Elm'', ''Birch'', ''Willow'', ''Lake'',
                  ''Hill'', ''Sunset'']"

definition cityNames :: "string list" where
  "cityNames = [''Springfield'', ''Riverton'', ''Fairview'', ''Franklin'', ''Greenville'',
                ''Bristol'', ''Clinton'', ''Georgetown'']"

definition stateCodes :: "string list" where
  "stateCodes = [''CA'', ''NY'', ''TX'', ''FL'', ''WA'', ''IL'', ''PA'', ''AZ'']"

definition FakerName_Transform :: "'g stdlib \<Rightarrow> val \<Rightarrow> RowContext \<Rightarrow> (val, 'g) go" where
  "FakerName_Transform lib v row =
     bind_go (DeterministicRand lib row) (\<lambda>rng.
     bind_go (Intn lib rng (int (length firstNames))) (\<lambda>i.
     bind_go (index firstNames i) (\<lambda>first.
     bind_go (Intn lib rng (int (length lastNames))) (\<lambda>j.
     bind_go (index lastNames j) (\<lambda>last.
     return_go (Text (first @ '' '' @ last)))))))"

definition FakerEmail_Transform :: "'g stdlib \<Rightarrow> val \<Rightarrow> RowContext \<Rightarrow> (val, 'g) go" where
  "FakerEmail_Transform lib v row =
     bind_go (DeterministicRand lib row) (\<lambda>rng.
     bind_go (Intn lib rng (int (length firstNames))) (\<lambda>i.
     bind_go (index firstNames i) (\<lambda>first.
     bind_go (Intn lib rng (int (length lastNames))) (\<lambda>j.
     bind_go (index lastNames j) (\<lambda>last.
     bind_go (Intn lib rng (int (length emailDomains))) (\<lambda>k.
     bind_go (index emailDomains k) (\<lambda>domain.
     return_go (Text (ToLower first @ ''.'' @ ToLower last @ ''@'' @ domain)))))))))"

definition FakerAddress_Transform :: "'g stdlib \<Rightarrow> val \<Rightarrow> RowContext \<Rightarrow> (val, 'g) go" where
  "FakerAddress_Transform lib v row =
     bind_go (DeterministicRand lib row) (\<lambda>rng.
     bind_go (Intn lib rng 8999) (\<lambda>n.
     bind_go (Intn lib rng (int (length streetNames))) (\<lambda>i.
     bind_go (index streetNames i) (\<lambda>street.
     bind_go (Intn lib rng (int (length cityNames))) (\<lambda>j.
     bind_go (index cityNames j) (\<lambda>city.
     bind_go (Intn lib rng (int (length stateCodes))) (\<lambda>k.
     bind_go (index stateCodes k) (\<lambda>state.
     bind_go (Intn lib rng 89999) (\<lambda>z.
     return_go (Text (show_int (add64 n 100) @ '' '' @ street @ '' St, '' @ city @ '', ''
                        @ state @ '' '' @ show_int (add64 z 10000))))))))))))"

definition FakerPhone_Transform :: "'g stdlib \<Rightarrow> val \<Rightarrow> RowContext \<Rightarrow> (val, 'g) go" where
  "FakerPhone_Transform lib v row =
     bind_go (DeterministicRand lib row) (\<lambda>rng.
     bind_go (Intn lib rng 800) (\<lambda>a.
     bind_go (Intn lib rng 800) (\<lambda>p.
     bind_go (Intn lib rng 9000) (\<lambda>l.
     return_go (Text (show_int (add64 a 200) @ ''-'' @ show_int (add64 p 200) @ ''-''
                        @ show_int (add64 l 1000)))))))"

definition NewDateShift :: "int \<Rightarrow> 'g transformer" where
  "NewDateShift maxDays = DateShift (if maxDays \<le> 0 then 30 else maxDays)"

definition RFC3339 :: string where
  "RFC3339 = ''2006-01-02T15:04:05Z07:00''"

text \<open>\<^verbatim>\<open>time.Hour\<close>, in nanoseconds.\<close>

definition Hour :: int where
  "Hour = 3600000000000"

definition DateShift_Transform :: "'g stdlib \<Rightarrow> int \<Rightarrow> val \<Rightarrow> RowContext \<Rightarrow> (val, 'g) go" where
  "DateShift_Transform lib maxDays v row =
     (if v = Null then return_go Null
      else
        bind_go (DeterministicRand lib row) (\<lambda>rng.
        bind_go (Intn lib rng (add64 (mul64 maxDays 2) 1)) (\<lambda>r.
          let shiftDays = sub64 r maxDays;
              shift = mul64 (mul64 shiftDays 24) Hour
          in (case v of
                Timestamp t \<Rightarrow> return_go (Timestamp (time_Add lib t shift))
              | Integer i \<Rightarrow>
                  (\<lambda>w. return_go
                     (Integer (unix_sec (time_Add lib (time_Unix lib (time_Local w) i 0) shift))) w)
              | Text s \<Rightarrow>
                  (\<lambda>w. case time_Parse lib (time_Local w) RFC3339 s of
                     Some ts \<Rightarrow> return_go (Text (time_Format lib (time_Add lib ts shift) RFC3339)) w
                   | None \<Rightarrow>
                       (case time_Parse lib (time_Local w) ''2006-01-02'' s of
                          Some ts \<Rightarrow>
                            return_go (Text (time_Format lib (time_Add lib ts shift) ''2006-01-02'')) w
                        | None \<Rightarrow> return_go (Text s) w))
              | _ \<Rightarrow> return_go v))))"

fun Transform :: "'g stdlib \<Rightarrow> 'g transformer \<Rightarrow> val \<Rightarrow> RowContext \<Rightarrow> (val, 'g) go" where
  "Transform lib (HashSha256 salt maxLen) v row = lift_go (HashSha256_Transform salt maxLen v row)"
| "Transform lib (HmacSha256 key maxLen) v row = lift_go (HmacSha256_Transform key maxLen v row)"
| "Transform lib (StableTokenize maxLen) v row = lift_go (StableTokenize_Transform maxLen v row)"
| "Transform lib (RegexReplace pattern repl) v row =
     (if v = Null then return_go Null
      else return_go (Text (ReplaceAllString lib pattern (Sprint v) repl)))"
| "Transform lib SetNull v row = return_go Null"
| "Transform lib (SetValue x) v row = return_go x"
| "Transform lib (MapReplace m) v row = lift_go (MapReplace_Transform m v row)"
| "Transform lib FakerName v row = FakerName_Transform lib v row"
| "Transform lib FakerEmail v row = FakerEmail_Transform lib v row"
| "Transform lib FakerAddress v row = FakerAddress_Transform lib v row"
| "Transform lib FakerPhone v row = FakerPhone_Transform lib v row"
| "Transform lib (DateShift maxDays) v row = DateShift_Transform lib maxDays v row"
| "Transform lib (PluginTransformer name fn cfg) v row =
     (case fn of
        None \<Rightarrow> lift_go (Inl (PluginNotInitialized name))
      | Some f \<Rightarrow> f v row cfg)"


subsection \<open>The factory\<close>

type_synonym 'g Factory = "TransformConfig \<Rightarrow> string \<Rightarrow> error + 'g transformer option"

text \<open>\<^verbatim>\<open>var registry = map[string]Factory{}\<close>: no factory is registered until a plugin is loaded.\<close>

definition registry0 :: "string \<rightharpoonup> 'g Factory" where
  "registry0 = Map.empty"

definition Register ::
  "string \<Rightarrow> 'g Factory option \<Rightarrow> (string \<rightharpoonup> 'g Factory) \<Rightarrow> (string \<rightharpoonup> 'g Factory)" where
  "Register name factory registry =
     (case factory of
        None \<Rightarrow> registry
      | Some f \<Rightarrow> if name = [] then registry else registry(ToLower name \<mapsto> f))"

definition registerPlugin ::
  "string \<Rightarrow> 'g PluginFunc option \<Rightarrow> (string \<rightharpoonup> 'g Factory) \<Rightarrow> (string \<rightharpoonup> 'g Factory)" where
  "registerPlugin name fn =
     Register name (Some (\<lambda>cfg salt. Inr (Some (PluginTransformer name fn (Some cfg)))))"

text \<open>
  \<^verbatim>\<open>int(t)\<close> of a \<^verbatim>\<open>float64\<close>, from its bits: the fraction is cut off; a value that is no
  \<^verbatim>\<open>int64\<close> (too large, infinite, not a number) gives the least \<^verbatim>\<open>int64\<close>, as the amd64
  conversion instruction does (Go leaves this case to the implementation).
\<close>

definition float64_to_int :: "64 word \<Rightarrow> int" where
  "float64_to_int b =
     (let e = unat (drop_bit 52 b AND 0x7FF);
          m = uint (take_bit 52 b) + 2 ^ 52;
          mag = (if e < 1023 then 0
                 else if 1075 \<le> e then m * 2 ^ (e - 1075)
                 else m div 2 ^ (1075 - e));
          x = (if bit b 63 then - mag else mag)
      in if e = 2047 \<or> x < - (2 ^ 63) \<or> 2 ^ 63 \<le> x then - (2 ^ 63) else x)"

text \<open>
  \<^verbatim>\<open>asInt\<close>: Go's \<^verbatim>\<open>int\<close> and \<^verbatim>\<open>int64\<close> are both \<open>Integer\<close> here; a \<^verbatim>\<open>float32\<close> is no value
  of a decoded configuration.
\<close>

definition asInt :: "val \<Rightarrow> int \<times> bool" where
  "asInt v = (case v of
                Integer i \<Rightarrow> (i, True)
              | Real f \<Rightarrow> (float64_to_int (float_bits f), True)
              | _ \<Rightarrow> (0, False))"

definition Build ::
  "'g stdlib \<Rightarrow> (string \<rightharpoonup> 'g Factory) \<Rightarrow> TransformConfig option \<Rightarrow> string
    \<Rightarrow> error + 'g transformer option" where
  "Build lib registry cfg salt =
     (case cfg of
        None \<Rightarrow> Inr None
      | Some cfg \<Rightarrow>
          let key = ToLower (Type cfg) in
          (case registry key of
             Some factory \<Rightarrow> factory cfg salt
           | None \<Rightarrow>
               if key = ''hashsha256'' then Inr (Some (HashSha256 salt (MaxLen cfg)))
               else if key = ''hmacsha256'' then Inr (Some (HmacSha256 (bytes_of salt) (MaxLen cfg)))
               else if key = ''stabletokenize'' then Inr (Some (StableTokenize (MaxLen cfg)))
               else if key = ''regexreplace'' then
                 (if regexp_Compile_ok lib (Pattern cfg)
                  then Inr (Some (RegexReplace (Pattern cfg) (Replace cfg)))
                  else Inl (InvalidRegex (Pattern cfg)))
               else if key = ''setnull'' then Inr (Some SetNull)
               else if key = ''setvalue'' then Inr (Some (SetValue (Value cfg)))
               else if key = ''fakername'' then Inr (Some FakerName)
               else if key = ''fakeremail'' then Inr (Some FakerEmail)
               else if key = ''fakeraddress'' then Inr (Some FakerAddress)
               else if key = ''fakerphone'' then Inr (Some FakerPhone)
               else if key = ''dateshift'' then
                 (let maxDays = (case Params cfg ''max_days'' of
                                   Some v \<Rightarrow> (case asInt v of (iv, ok) \<Rightarrow> if ok then iv else 30)
                                 | None \<Rightarrow> 30)
                  in Inr (Some (NewDateShift maxDays)))
               else if key = ''map'' then Inr (Some (MapReplace (cfg_Map cfg)))
               else Inl (UnknownTransformer (Type cfg))))"

text \<open>
  A stand-in for the library record, for running the program on concrete inputs that never
  reach it: no pattern compiles, no string parses as a time, no glob matches, and the
  generator counts.
\<close>

definition no_lib :: "nat stdlib" where
  "no_lib = \<lparr>rand_New = (\<lambda>s. 0), rand_Intn = (\<lambda>g n. (0, Suc g)),
             regexp_Compile_ok = (\<lambda>p. False), ReplaceAllString = (\<lambda>p s r. s),
             time_Parse = (\<lambda>z l s. None), time_Unix = (\<lambda>z s n. Time s n z []),
             time_Add = (\<lambda>t d. t), time_Format = (\<lambda>t l. []),
             path_Match = (\<lambda>p n. False)\<rparr>"

subsection \<open>The row seed\<close>

text \<open>
  The specification's reading of the seed: the first eight bytes of the digest as a
  big-endian number, read as a signed 64-bit integer.
\<close>

primrec be_nat :: "byte list \<Rightarrow> nat" where
  "be_nat [] = 0"
| "be_nat (b # bs) = unat b * 256 ^ length bs + be_nat bs"

definition signed64 :: "nat \<Rightarrow> int" where
  "signed64 u = (if u < 2 ^ 63 then int u else int u - 2 ^ 64)"

lemma shift_or_byte:
  "push_bit 8 (a :: 64 word) OR ucast (b :: byte) = a * 256 + word_of_nat (unat b)"
proof -
  have "push_bit 8 a + ucast b = push_bit 8 a OR (ucast b :: 64 word)"
    by (rule disjunctive_add) (auto simp add: bit_push_bit_iff bit_ucast_iff dest: bit_imp_le_length)
  then show ?thesis
    by (simp add: push_bit_eq_mult)
qed

lemma foldl_be:
  "foldl (\<lambda>s b. push_bit 8 s OR ucast b) (a :: 64 word) (bs :: byte list)
     = a * 256 ^ length bs + word_of_nat (be_nat bs)"
proof (induction bs arbitrary: a)
  case Nil
  show ?case by simp
next
  case (Cons b bs)
  have "foldl (\<lambda>s b. push_bit 8 s OR ucast b) a (b # bs)
          = foldl (\<lambda>s b. push_bit 8 s OR ucast b) (push_bit 8 a OR ucast b) bs"
    by simp
  also have "\<dots> = (push_bit 8 a OR ucast b) * 256 ^ length bs + word_of_nat (be_nat bs)"
    by (rule Cons.IH)
  also have "\<dots> = (a * 256 + word_of_nat (unat b)) * 256 ^ length bs + word_of_nat (be_nat bs)"
    by (simp only: shift_or_byte)
  also have "\<dots> = a * 256 ^ length (b # bs) + word_of_nat (be_nat (b # bs))"
    by (simp add: algebra_simps)
  finally show ?case .
qed

lemma unat_byte_less: "unat (b :: byte) < 256"
  using unsigned_less [of b, where ?'a = nat] by simp

lemma be_nat_less: "be_nat bs < 256 ^ length bs"
proof (induction bs)
  case Nil
  show ?case by simp
next
  case (Cons b bs)
  have "unat b * 256 ^ length bs + be_nat bs < (unat b + 1) * 256 ^ length bs"
    using Cons.IH by (simp add: algebra_simps)
  also have "\<dots> \<le> 256 * 256 ^ length bs"
    using unat_byte_less [of b] by (intro mult_le_mono1) simp
  finally show ?case by simp
qed

lemma sint_signed64: "u < 2 ^ 64 \<Longrightarrow> sint (word_of_int (signed64 u) :: 64 word) = signed64 u"
  by (simp add: sint_sbintrunc' signed_take_bit_int_eq_self signed64_def)

lemma word_signed64: "(word_of_int (signed64 u) :: 64 word) = word_of_nat u"
  by (simp add: signed64_def)

lemma take8_sha: "length (take 8 (sha256 m)) = 8"
  by simp

text \<open>
  Claim C5. For every row context, \<^verbatim>\<open>RowSeed\<close> is \<open>s0 XOR seed\<close>, where \<open>s0\<close> is the signed
  64-bit big-endian integer made of the first eight bytes of the SHA-256 digest of the
  salt, the table name and the textual forms of the primary-key values, in this order;
  when \<open>s0\<close> is zero the context's seed takes its place, so that the result is
  \<open>seed XOR seed\<close>, which is zero. The 64-bit word of \<open>s0\<close> reads back as \<open>s0\<close>: nothing
  is lost in the conversion.
\<close>

theorem RowSeed_spec:
  "RowSeed row =
     (let h = sha256 (bytes_of (Salt row) @ bytes_of (Table row)
                        @ concat (map (\<lambda>v. bytes_of (Sprint v)) (PK row)));
          s0 = signed64 (be_nat (take 8 h))
      in if s0 = 0 then Seed row XOR Seed row else word_of_int s0 XOR Seed row)
   \<and> sint (word_of_int (signed64 (be_nat (take 8 (sha256 (bytes_of (Salt row)
              @ bytes_of (Table row) @ concat (map (\<lambda>v. bytes_of (Sprint v)) (PK row))))))) :: 64 word)
       = signed64 (be_nat (take 8 (sha256 (bytes_of (Salt row) @ bytes_of (Table row)
                        @ concat (map (\<lambda>v. bytes_of (Sprint v)) (PK row))))))
   \<and> Seed row XOR Seed row = 0"
proof -
  define h where "h = sha256 (bytes_of (Salt row) @ bytes_of (Table row)
                        @ concat (map (\<lambda>v. bytes_of (Sprint v)) (PK row)))"
  define u where "u = be_nat (take 8 h)"
  have len: "length (take 8 h) = 8" by (simp add: h_def)
  have "u < 256 ^ 8" unfolding u_def using be_nat_less [of "take 8 h"] len by simp
  then have u64: "u < 2 ^ 64" by simp
  have fold: "foldl (\<lambda>seed b. push_bit 8 seed OR ucast b) (0 :: 64 word) (take 8 h) = word_of_nat u"
    by (simp add: foldl_be u_def)
  have w: "(word_of_int (signed64 u) :: 64 word) = word_of_nat u"
    by (rule word_signed64)
  have s: "sint (word_of_int (signed64 u) :: 64 word) = signed64 u"
    using u64 by (rule sint_signed64)
  have z: "signed64 u = 0 \<longleftrightarrow> (word_of_nat u :: 64 word) = 0"
    using s w by (metis sint_0 word_of_int_0)
  have "RowSeed row =
          (if signed64 u = 0 then Seed row XOR Seed row else word_of_int (signed64 u) XOR Seed row)"
    unfolding RowSeed_def Let_def h_def [symmetric] fold z w by simp
  with s show ?thesis
    unfolding Let_def h_def [symmetric] u_def [symmetric] by simp
qed

subsection \<open>Stable tokens\<close>

lemma length_ToLower [simp]: "length (ToLower s) = length s"
  by (simp add: ToLower_def)

lemma length_token [simp]: "length (ToLower (base32_encode (sha256 m))) = 52"
  by (simp add: length_base32_encode)

text \<open>
  Claim C7, as the specification states it, fails for a negative \<^verbatim>\<open>maxlen\<close>: the token of
  \<^verbatim>\<open>alice\<close> under the salt \<^verbatim>\<open>salt\<close> with \<^verbatim>\<open>maxlen = -1\<close> is the whole encoding, 52 characters
  and not at most 16.
\<close>

theorem StableTokenize_negative_maxlen_counterexample:
  "StableTokenize_Transform (- 1) (Text ''alice'')
       \<lparr>Table = ''users'', PK = [Integer 1], Seed = 42, Salt = ''salt''\<rparr>
     = Inr (Text ''hovdpg2h7pbw5x7e7cvakdiq2ddd22pbbyxtspxvnc4zl6hyh5lq'')
   \<and> length ''hovdpg2h7pbw5x7e7cvakdiq2ddd22pbbyxtspxvnc4zl6hyh5lq'' = 52
   \<and> \<not> length ''hovdpg2h7pbw5x7e7cvakdiq2ddd22pbbyxtspxvnc4zl6hyh5lq'' \<le> 16"
  by code_simp

text \<open>
  Claim C7, amended. A null value yields null. Every other value yields the lowercase
  unpadded base32 encoding of the SHA-256 digest of the context's salt followed by the
  value's textual form, which has 52 characters: cut to \<^verbatim>\<open>maxlen\<close> characters when
  \<^verbatim>\<open>maxlen\<close> is positive, cut to 16 characters when \<^verbatim>\<open>maxlen\<close> is zero, and whole when
  \<^verbatim>\<open>maxlen\<close> is negative.
\<close>

theorem StableTokenize_Transform_spec:
  "StableTokenize_Transform maxLen v row =
     (if v = Null then Inr Null
      else
        let out = ToLower (base32_encode (sha256 (bytes_of (Salt row @ Sprint v))))
        in Inr (Text (if 0 < maxLen then take (nat maxLen) out
                      else if maxLen = 0 then take 16 out
                      else out)))
   \<and> length (ToLower (base32_encode (sha256 (bytes_of (Salt row @ Sprint v))))) = 52"
  by (simp add: StableTokenize_Transform_def Let_def length_base32_encode)

subsection \<open>The map transformer and the factory\<close>

text \<open>
  Claim C6, as the specification states it, fails: with no plugin registered, the type
  \<^verbatim>\<open>MapReplace\<close> is unknown to the factory, whose name for the map transformer is \<^verbatim>\<open>map\<close>.
\<close>

theorem Build_MapReplace_counterexample:
  "Build no_lib registry0
     (Some \<lparr>Type = ''MapReplace'', Params = Map.empty, Value = Null, Pattern = [],
            Replace = [], Locale = [], MaxLen = 0, cfg_Map = [''active'' \<mapsto> ''on''],
            LookupTable = [], LookupKey = [], LookupValue = []\<rparr>) ''salt''
     = Inl (UnknownTransformer ''MapReplace'')"
  by (simp add: Build_def registry0_def ToLower_def lower_char_def Let_def)

text \<open>
  Claim C6, amended. For every configuration whose type is \<^verbatim>\<open>Map\<close> in any letter case,
  when no plugin factory is registered under that name, \<^verbatim>\<open>Build\<close> succeeds and returns
  the map transformer of the configuration's map. Its transform yields null for a null
  value, and for every other value \<open>m[string(value)]\<close> when the key is present and the
  textual form of the value otherwise.
\<close>

theorem Build_Map:
  assumes "ToLower (Type cfg) = ''map''" and "registry ''map'' = None"
  shows "Build lib registry (Some cfg) salt = Inr (Some (MapReplace (cfg_Map cfg)))
    \<and> Transform lib (MapReplace (cfg_Map cfg)) v row w =
        (if v = Null then Inr Null
         else case cfg_Map cfg (Sprint v) of
                Some r \<Rightarrow> Inr (Text r)
              | None \<Rightarrow> Inr (Text (Sprint v)), w)"
  using assms by (simp add: Build_def MapReplace_Transform_def Let_def lift_go_def)

theorem Build_Map_witness:
  "ToLower (Type \<lparr>Type = ''Map'', Params = Map.empty, Value = Null, Pattern = [],
            Replace = [], Locale = [], MaxLen = 0, cfg_Map = [''active'' \<mapsto> ''on''],
            LookupTable = [], LookupKey = [], LookupValue = []\<rparr>) = ''map''
   \<and> (registry0 :: string \<rightharpoonup> nat Factory) ''map'' = None
   \<and> Build no_lib registry0
        (Some \<lparr>Type = ''Map'', Params = Map.empty, Value = Null, Pattern = [],
            Replace = [], Locale = [], MaxLen = 0, cfg_Map = [''active'' \<mapsto> ''on''],
            LookupTable = [], LookupKey = [], LookupValue = []\<rparr>) ''salt''
       = Inr (Some (MapReplace [''active'' \<mapsto> ''on'']))
   \<and> Transform no_lib (MapReplace [''active'' \<mapsto> ''on'']) (Text ''active'')
        \<lparr>Table = ''users'', PK = [Integer 1], Seed = 42, Salt = ''salt''\<rparr>
        \<lparr>rngs = [], time_Local = ''UTC''\<rparr>
       = (Inr (Text ''on''), \<lparr>rngs = [], time_Local = ''UTC''\<rparr>)
   \<and> Transform no_lib (MapReplace [''active'' \<mapsto> ''on'']) (Integer 7)
        \<lparr>Table = ''users'', PK = [Integer 1], Seed = 42, Salt = ''salt''\<rparr>
        \<lparr>rngs = [], time_Local = ''UTC''\<rparr>
       = (Inr (Text ''7''), \<lparr>rngs = [], time_Local = ''UTC''\<rparr>)"
proof -
  let ?cfg = "\<lparr>Type = ''Map'', Params = Map.empty, Value = Null, Pattern = [],
            Replace = [], Locale = [], MaxLen = 0, cfg_Map = [''active'' \<mapsto> ''on''],
            LookupTable = [], LookupKey = [], LookupValue = []\<rparr>"
  let ?row = "\<lparr>Table = ''users'', PK = [Integer 1], Seed = 42, Salt = ''salt''\<rparr>"
  let ?w = "\<lparr>rngs = [], time_Local = ''UTC''\<rparr> :: nat process"
  have h1: "ToLower (Type ?cfg) = ''map''"
    by code_simp
  have h2: "(registry0 :: string \<rightharpoonup> nat Factory) ''map'' = None"
    by (simp add: registry0_def)
  have s7: "Sprint (Integer 7) = ''7''"
    by (simp add: show_int_def digits.simps)
  show ?thesis
    using h1 h2 s7
      Build_Map [where cfg = ?cfg and registry = registry0 and lib = no_lib
        and salt = "''salt''" and v = "Text ''active''" and row = ?row and w = ?w]
      Build_Map [where cfg = ?cfg and registry = registry0 and lib = no_lib
        and salt = "''salt''" and v = "Integer 7" and row = ?row and w = ?w]
    by simp
qed

subsection \<open>Determinism\<close>

text \<open>
  A second stand-in for the library, whose generator depends on its seed: a linear
  congruential generator (not the generator of \<^verbatim>\<open>math/rand\<close>).
\<close>

definition lcg_lib :: "64 word stdlib" where
  "lcg_lib = \<lparr>rand_New = (\<lambda>s. s),
               rand_Intn = (\<lambda>g n. (uint (drop_bit 33 g) mod n,
                                    g * 6364136223846793005 + 1442695040888963407)),
               regexp_Compile_ok = (\<lambda>p. False), ReplaceAllString = (\<lambda>p s r. s),
               time_Parse = (\<lambda>z l s. None), time_Unix = (\<lambda>z s n. Time s n z []),
               time_Add = (\<lambda>t d. t), time_Format = (\<lambda>t l. []),
               path_Match = (\<lambda>p n. False)\<rparr>"











lemma length_hmac_sha256: "length (hmac_sha256 key msg) = 32"
  by (simp add: hmac_sha256_def Let_def)

lemma length_hmac_hex: "length (hex_encode (hmac_sha256 key msg)) = 64"
  by (simp add: length_hmac_sha256)





text \<open>
  The outputs themselves, under the stand-in generator: rows that differ in the primary
  key get different names, and a primary key that prints the same gets the same name.
\<close>

lemma FakerName_users:
  "fst (Transform lcg_lib FakerName (Text ''x'')
          \<lparr>Table = ''users'', PK = [Integer 1], Seed = 42, Salt = ''salt''\<rparr>
          \<lparr>rngs = [], time_Local = ''UTC''\<rparr>) = Inr (Text ''Parker Hall'')
   \<and> fst (Transform lcg_lib FakerName (Text ''x'')
          \<lparr>Table = ''users'', PK = [Integer 2], Seed = 42, Salt = ''salt''\<rparr>
          \<lparr>rngs = [], time_Local = ''UTC''\<rparr>) = Inr (Text ''Alex Wilson'')"
  by code_simp

lemma HmacSha256_user1:
  "fst (Transform no_lib (HmacSha256 (bytes_of ''salt'') 16) (Text ''user1@example.com'')
        \<lparr>Table = ''users'', PK = [Integer 1], Seed = 7, Salt = ''salt''\<rparr>
        \<lparr>rngs = [], time_Local = ''UTC''\<rparr>)
     = Inr (Text ''61be22f520f1b639'')"
  by code_simp

text \<open>
  A plugin is not bound to this: a callback that counts the generators of the process
  returns another value at its second evaluation.
\<close>

lemma plugin_not_deterministic:
  "fst (Transform no_lib
          (PluginTransformer ''Count''
             (Some (\<lambda>v row cfg w. (Inr (Integer (int (length (rngs w)))), w\<lparr>rngs := rngs w @ [0]\<rparr>)))
             None)
          Null \<lparr>Table = ''t'', PK = [], Seed = 0, Salt = []\<rparr>
          (snd (Transform no_lib
             (PluginTransformer ''Count''
                (Some (\<lambda>v row cfg w. (Inr (Integer (int (length (rngs w)))), w\<lparr>rngs := rngs w @ [0]\<rparr>)))
                None)
             Null \<lparr>Table = ''t'', PK = [], Seed = 0, Salt = []\<rparr>
             \<lparr>rngs = [], time_Local = ''UTC''\<rparr>)))
     \<noteq> fst (Transform no_lib
          (PluginTransformer ''Count''
             (Some (\<lambda>v row cfg w. (Inr (Integer (int (length (rngs w)))), w\<lparr>rngs := rngs w @ [0]\<rparr>)))
             None)
          Null \<lparr>Table = ''t'', PK = [], Seed = 0, Salt = []\<rparr>
          \<lparr>rngs = [], time_Local = ''UTC''\<rparr>)"
  by simp

end
